theory Spec2Isabelle
  imports Main "HOL-Library.Sublist"
begin

section \<open>Request cache coordinator (lib/utils/optimizedFetch)\<close>

text \<open>
  The fetch ledger is the module-level object \<^verbatim>\<open>fetchCache\<close>, indexed by the data-type
  name.  It is modelled as a map from keys to entries, passed in and returned by
  every operation.  \<^verbatim>\<open>Date.now()\<close> is an input of the operations that read it: the
  number of milliseconds as an integer.  Keys are data-type names such as \<^verbatim>\<open>jobs\<close>;
  property names that a JavaScript object inherits from its prototype are not data-type
  names and are outside the model.
\<close>

record cache_entry =
  timestamp :: int
  inProgress :: bool

type_synonym FetchCache = "string \<rightharpoonup> cache_entry"

definition CACHE_EXPIRY :: int where
  "CACHE_EXPIRY = 5 * 60 * 1000"

definition shouldFetchData :: "FetchCache \<Rightarrow> string \<Rightarrow> bool \<Rightarrow> int \<Rightarrow> bool \<times> FetchCache" where
  "shouldFetchData fetchCache dataType forceRefresh now =
     (if forceRefresh
      then (True, fetchCache(dataType \<mapsto> \<lparr>timestamp = now, inProgress = True\<rparr>))
      else
        (case fetchCache dataType of
           None \<Rightarrow> (True, fetchCache(dataType \<mapsto> \<lparr>timestamp = now, inProgress = True\<rparr>))
         | Some cacheEntry \<Rightarrow>
             if inProgress cacheEntry then (False, fetchCache)
             else if now - timestamp cacheEntry > CACHE_EXPIRY
             then (True, fetchCache(dataType \<mapsto> \<lparr>timestamp = now, inProgress = True\<rparr>))
             else (False, fetchCache)))"

definition markFetchComplete :: "FetchCache \<Rightarrow> string \<Rightarrow> int \<Rightarrow> FetchCache" where
  "markFetchComplete fetchCache dataType now =
     fetchCache(dataType \<mapsto> \<lparr>timestamp = now, inProgress = False\<rparr>)"

text \<open>
  \<^verbatim>\<open>fetchCache[dataType]?.timestamp || 0\<close>: a missing entry and a timestamp of 0 both
  give 0.
\<close>

definition markFetchFailed :: "FetchCache \<Rightarrow> string \<Rightarrow> FetchCache" where
  "markFetchFailed fetchCache dataType =
     (let previousTimestamp =
            (case fetchCache dataType of
               None \<Rightarrow> 0
             | Some e \<Rightarrow> if timestamp e = 0 then 0 else timestamp e)
      in fetchCache(dataType \<mapsto> \<lparr>timestamp = previousTimestamp, inProgress = False\<rparr>))"

definition invalidateCache :: "FetchCache \<Rightarrow> string \<Rightarrow> FetchCache" where
  "invalidateCache fetchCache dataType =
     (case fetchCache dataType of
        None \<Rightarrow> fetchCache
      | Some _ \<Rightarrow> fetchCache(dataType := None))"

definition invalidateAllCaches :: "FetchCache \<Rightarrow> FetchCache" where
  "invalidateAllCaches fetchCache = Map.empty"

subsection \<open>Sequences of ledger operations\<close>

text \<open>
  The event loop runs the exported operations one after another on the one ledger.  A
  trace lists the calls in the order in which they run; a call that reads the clock
  carries the value it reads.
\<close>

datatype ledger_op =
    ShouldFetch string bool int
  | MarkComplete string int
  | MarkFailed string
  | Invalidate string
  | InvalidateAll

fun step :: "FetchCache \<Rightarrow> ledger_op \<Rightarrow> FetchCache" where
  "step c (ShouldFetch d f now) = snd (shouldFetchData c d f now)"
| "step c (MarkComplete d now) = markFetchComplete c d now"
| "step c (MarkFailed d) = markFetchFailed c d"
| "step c (Invalidate d) = invalidateCache c d"
| "step c InvalidateAll = invalidateAllCaches c"

text \<open>The values returned, in order, by the \<^verbatim>\<open>shouldFetchData\<close> calls of a trace for one key.\<close>

fun answers :: "string \<Rightarrow> FetchCache \<Rightarrow> ledger_op list \<Rightarrow> bool list" where
  "answers k c [] = []"
| "answers k c (ShouldFetch d f now # ops) =
     (if d = k then fst (shouldFetchData c d f now) # answers k (step c (ShouldFetch d f now)) ops
      else answers k (step c (ShouldFetch d f now)) ops)"
| "answers k c (op # ops) = answers k (step c op) ops"

fun run :: "FetchCache \<Rightarrow> ledger_op list \<Rightarrow> FetchCache" where
  "run c [] = c"
| "run c (op # ops) = run (step c op) ops"

text \<open>
  A trace leaves a key undisturbed when its only calls on that key are
  \<^verbatim>\<open>shouldFetchData\<close> without forced refresh: no completion, failure or invalidation of
  the key, and no clearing of the whole ledger.
\<close>

fun quiet :: "string \<Rightarrow> ledger_op \<Rightarrow> bool" where
  "quiet k (ShouldFetch d f now) = (if d = k then f = False else True)"
| "quiet k (MarkComplete d now) = (d \<noteq> k)"
| "quiet k (MarkFailed d) = (d \<noteq> k)"
| "quiet k (Invalidate d) = (d \<noteq> k)"
| "quiet k InvalidateAll = False"

definition undisturbed :: "string \<Rightarrow> ledger_op list \<Rightarrow> bool" where
  "undisturbed k ops = list_all (quiet k) ops"

section \<open>Error classifier and resilient executor (lib/utils/errorHandler.ts)\<close>

datatype ErrorCategory =
    NETWORK | AUTHENTICATION | AUTHORIZATION | VALIDATION | NOT_FOUND
  | SERVER | DATABASE | OFFLINE | UNKNOWN

text \<open>
  A failure is a value of type \<^verbatim>\<open>any\<close>.  The message it carries can be any JavaScript
  value: \<^verbatim>\<open>undefined\<close> or \<^verbatim>\<open>null\<close>, a boolean, a number (the integer-valued ones are
  modelled), a string, an array, or another object.  \<open>JObj\<close> stands for an object that
  brings no method named \<^verbatim>\<open>includes\<close>; an object that defines such a method itself
  is outside the model.
\<close>

datatype js_value =
    JUndefined | JNull
  | JBool bool
  | JNum int
  | JStr string
  | JArr "js_value list"
  | JObj

fun truthy :: "js_value \<Rightarrow> bool" where
  "truthy JUndefined = False"
| "truthy JNull = False"
| "truthy (JBool b) = b"
| "truthy (JNum n) = (n \<noteq> 0)"
| "truthy (JStr s) = (s \<noteq> [])"
| "truthy (JArr vs) = True"
| "truthy JObj = True"

text \<open>
  The classifier probes four things of the failure: the properties \<^verbatim>\<open>code\<close>,
  \<^verbatim>\<open>status\<close> and \<^verbatim>\<open>message\<close> (each read with \<^verbatim>\<open>?.\<close>, so absent on \<^verbatim>\<open>undefined\<close>) and
  whether the value is a \<^verbatim>\<open>TypeError\<close>.  A raw error is the record of these four
  observations; \<^verbatim>\<open>undefined\<close> is the record with nothing present.  The code is a string
  when present, as the table \<^verbatim>\<open>Record<string, ErrorCategory>\<close> has it, and the status a
  number, as \<^verbatim>\<open>Record<number, ErrorCategory>\<close> has it.
\<close>

record raw_error =
  code :: "string option"
  status :: "int option"
  message :: js_value
  isTypeError :: bool


text \<open>
  The classifier returns what it finds in its tables.  Both tables are object
  literals, so a lookup also answers for the names every object inherits from
  \<^verbatim>\<open>Object.prototype\<close>; what it then returns is that inherited member (a function, or
  the prototype itself for \<^verbatim>\<open>__proto__\<close>), which is truthy and is no category.
\<close>

datatype classified = Category ErrorCategory | Inherited string

text \<open>
  Calling \<^verbatim>\<open>includes\<close> on a message that has no such method raises a \<^verbatim>\<open>TypeError\<close>
  (\<^verbatim>\<open>includes is not a function\<close>); nothing in the module catches it.
\<close>

datatype thrown = NotAFunction

record ('e, 'r) AppError =
  app_message :: js_value
  category :: classified
  app_code :: "string option"
  originalError :: 'e
  retry :: "'r option"
  suggestions :: "string list"

definition supabaseErrorMap :: "string \<rightharpoonup> ErrorCategory" where
  "supabaseErrorMap = map_of
     [(''PGRST301'', NOT_FOUND),
      (''PGRST204'', VALIDATION),
      (''23505'', VALIDATION),
      (''23503'', VALIDATION),
      (''22P02'', VALIDATION),
      (''23502'', VALIDATION),
      (''42P01'', NOT_FOUND),
      (''42P02'', NOT_FOUND),
      (''42501'', AUTHORIZATION),
      (''42883'', SERVER),
      (''57014'', SERVER),
      (''53300'', SERVER),
      (''53100'', SERVER)]"

definition httpErrorMap :: "int \<rightharpoonup> ErrorCategory" where
  "httpErrorMap = map_of
     [(400, VALIDATION),
      (401, AUTHENTICATION),
      (403, AUTHORIZATION),
      (404, NOT_FOUND),
      (409, VALIDATION),
      (422, VALIDATION),
      (429, SERVER),
      (500, SERVER),
      (502, SERVER),
      (503, SERVER),
      (504, SERVER)]"

text \<open>The property names of \<^verbatim>\<open>Object.prototype\<close>.\<close>

definition inheritedNames :: "string list" where
  "inheritedNames =
     [''constructor'', ''hasOwnProperty'', ''isPrototypeOf'', ''propertyIsEnumerable'',
      ''toLocaleString'', ''toString'', ''valueOf'', ''__proto__'',
      ''__defineGetter__'', ''__defineSetter__'', ''__lookupGetter__'', ''__lookupSetter__'']"

text \<open>
  \<^verbatim>\<open>supabaseErrorMap[error.code]\<close>: an own entry of the table, else an inherited
  member, else \<^verbatim>\<open>undefined\<close>.
\<close>

definition supabaseLookup :: "string \<Rightarrow> classified option" where
  "supabaseLookup c =
     (case supabaseErrorMap c of
        Some cat \<Rightarrow> Some (Category cat)
      | None \<Rightarrow> if c \<in> set inheritedNames then Some (Inherited c) else None)"

text \<open>
  \<^verbatim>\<open>httpErrorMap[error.status]\<close> for a number: the key is the number's decimal form,
  which is never an inherited name, so only the own entries answer.
\<close>

definition httpLookup :: "int \<Rightarrow> classified option" where
  "httpLookup n = (case httpErrorMap n of Some cat \<Rightarrow> Some (Category cat) | None \<Rightarrow> None)"

text \<open>\<^verbatim>\<open>String.prototype.includes\<close>: the argument occurs as a contiguous substring.\<close>

fun str_includes :: "string \<Rightarrow> string \<Rightarrow> bool" where
  "str_includes [] sub = (sub = [])"
| "str_includes (c # cs) sub = (prefix sub (c # cs) \<or> str_includes cs sub)"

text \<open>
  \<^verbatim>\<open>error?.message?.includes(s)\<close>: \<^verbatim>\<open>undefined\<close>, hence falsy, when the message is
  \<^verbatim>\<open>undefined\<close> or \<^verbatim>\<open>null\<close>; the substring test on a string; the membership test of
  \<^verbatim>\<open>Array.prototype.includes\<close> on an array; and a \<^verbatim>\<open>TypeError\<close> on a boolean, a number or
  an object without the method.
\<close>

definition messageIncludes :: "raw_error \<Rightarrow> string \<Rightarrow> thrown + bool" where
  "messageIncludes err s =
     (case message err of
        JUndefined \<Rightarrow> Inr False
      | JNull \<Rightarrow> Inr False
      | JStr m \<Rightarrow> Inr (str_includes m s)
      | JArr vs \<Rightarrow> Inr (JStr s \<in> set vs)
      | JBool b \<Rightarrow> Inl NotAFunction
      | JNum n \<Rightarrow> Inl NotAFunction
      | JObj \<Rightarrow> Inl NotAFunction)"


text \<open>\<^verbatim>\<open>a || b\<close> where evaluating an operand may throw: \<open>b\<close> counts only when \<open>a\<close> is false.\<close>

definition js_or :: "thrown + bool \<Rightarrow> thrown + bool \<Rightarrow> thrown + bool" where
  "js_or a b = (case a of Inl t \<Rightarrow> Inl t | Inr x \<Rightarrow> if x then Inr True else b)"

text \<open>
  \<^verbatim>\<open>navigator.onLine\<close> is read from the browser, not from the argument; it is the first
  parameter of the model.  \<^verbatim>\<open>error?.code && supabaseErrorMap[error.code]\<close> holds when
  the code is a non-empty string and the lookup gives a value (every value it can
  give is truthy); likewise for the status, where 0 is the falsy number.  The result is
  \<open>Inl\<close> when the classifier throws and \<open>Inr\<close> of the value it returns otherwise.
\<close>

definition categorizeError :: "bool \<Rightarrow> raw_error \<Rightarrow> thrown + classified" where
  "categorizeError onLine err =
     (if onLine = False then Inr (Category OFFLINE)
      else
        (case (case code err of
                 None \<Rightarrow> None
               | Some c \<Rightarrow> if c = [] then None else supabaseLookup c) of
           Some found \<Rightarrow> Inr found
         | None \<Rightarrow>
            (case (case status err of
                     None \<Rightarrow> None
                   | Some n \<Rightarrow> if n = 0 then None else httpLookup n) of
               Some found \<Rightarrow> Inr found
             | None \<Rightarrow>
                (case js_or (messageIncludes err ''auth'')
                        (js_or (messageIncludes err ''token'')
                          (js_or (messageIncludes err ''credential'')
                                 (messageIncludes err ''login''))) of
                   Inl t \<Rightarrow> Inl t
                 | Inr isAuth \<Rightarrow>
                     if isAuth then Inr (Category AUTHENTICATION)
                     else
                       (case js_or (messageIncludes err ''network'')
                               (js_or (messageIncludes err ''fetch'')
                                 (js_or (messageIncludes err ''connection'')
                                        (Inr (isTypeError err)))) of
                          Inl t \<Rightarrow> Inl t
                        | Inr isNetwork \<Rightarrow>
                            if isNetwork then Inr (Category NETWORK)
                            else Inr (Category UNKNOWN))))))"

text \<open>\<^verbatim>\<open>error?.message || fallback\<close>: the message when it is truthy, whatever its type.\<close>

definition messageOr :: "raw_error \<Rightarrow> string \<Rightarrow> js_value" where
  "messageOr err fallback = (if truthy (message err) then message err else JStr fallback)"

text \<open>The \<^verbatim>\<open>switch\<close> on the classifier's result; an inherited member takes the default.\<close>

definition friendlyMessage :: "classified \<Rightarrow> raw_error \<Rightarrow> js_value" where
  "friendlyMessage c err =
     (case c of
        Category NETWORK \<Rightarrow>
          JStr ''Network connection issue. Please check your internet connection and try again.''
      | Category OFFLINE \<Rightarrow> JStr ''You are currently offline. Some features may be unavailable.''
      | Category AUTHENTICATION \<Rightarrow> JStr ''Authentication failed. Please log in again.''
      | Category AUTHORIZATION \<Rightarrow> JStr ''You do not have permission to perform this action.''
      | Category VALIDATION \<Rightarrow>
          messageOr err ''The information provided is invalid. Please check and try again.''
      | Category NOT_FOUND \<Rightarrow> JStr ''The requested information could not be found.''
      | Category SERVER \<Rightarrow> JStr ''The server encountered an error. Please try again later.''
      | Category DATABASE \<Rightarrow> JStr ''There was a database error. Please try again later.''
      | Category UNKNOWN \<Rightarrow> messageOr err ''An unexpected error occurred. Please try again.''
      | Inherited k \<Rightarrow> messageOr err ''An unexpected error occurred. Please try again.'')"

definition getUserFriendlyMessage :: "bool \<Rightarrow> raw_error \<Rightarrow> thrown + js_value" where
  "getUserFriendlyMessage onLine err =
     (case categorizeError onLine err of
        Inl t \<Rightarrow> Inl t
      | Inr c \<Rightarrow> Inr (friendlyMessage c err))"

definition getErrorSuggestions :: "classified \<Rightarrow> string list" where
  "getErrorSuggestions c =
     (case c of
        Category NETWORK \<Rightarrow>
          [''Check your internet connection'',
           ''Try refreshing the page'',
           ''If the problem persists, contact support'']
      | Category OFFLINE \<Rightarrow>
          [''Connect to the internet to sync data'',
           ''You can continue working with limited functionality'',
           ''Your changes will be saved locally and synced when you reconnect'']
      | Category AUTHENTICATION \<Rightarrow>
          [''Try logging in again'',
           ''Clear your browser cache and cookies'',
           ''Contact support if the problem persists'']
      | Category AUTHORIZATION \<Rightarrow>
          [''Check if you have the necessary permissions'',
           ''Contact your administrator'',
           ''Try logging out and back in'']
      | Category VALIDATION \<Rightarrow>
          [''Check the information you provided'',
           ''Ensure all required fields are filled correctly'',
           ''Fix any highlighted errors and try again'']
      | Category NOT_FOUND \<Rightarrow>
          [''Check if the item was deleted'',
           ''Try searching with different criteria'',
           ''Return to the previous page'']
      | Category SERVER \<Rightarrow>
          [''Try again in a few minutes'',
           ''Refresh the page'',
           ''Contact support if the problem persists'']
      | Category DATABASE \<Rightarrow>
          [''Try again in a few minutes'',
           ''Refresh the page'',
           ''Contact support if the problem persists'']
      | Category UNKNOWN \<Rightarrow>
          [''Try again'',
           ''Refresh the page'',
           ''Contact support if the problem persists'']
      | Inherited k \<Rightarrow>
          [''Try again'',
           ''Refresh the page'',
           ''Contact support if the problem persists''])"

text \<open>
  The two classifications inside \<^verbatim>\<open>createAppError\<close> run back to back, with no
  suspension point between them, so they read the same \<^verbatim>\<open>navigator.onLine\<close>.  When the
  first one throws, so does \<^verbatim>\<open>createAppError\<close>.
\<close>

definition createAppError ::
  "bool \<Rightarrow> raw_error \<Rightarrow> 'r option \<Rightarrow> thrown + (raw_error, 'r) AppError" where
  "createAppError onLine err rt =
     (case categorizeError onLine err of
        Inl t \<Rightarrow> Inl t
      | Inr cat \<Rightarrow>
          (case getUserFriendlyMessage onLine err of
             Inl t \<Rightarrow> Inl t
           | Inr m \<Rightarrow>
               Inr \<lparr>app_message = m,
                    category = cat,
                    app_code = code err,
                    originalError = err,
                    retry = rt,
                    suggestions = getErrorSuggestions cat\<rparr>))"









section \<open>Lifecycle stage deriver (hooks/useCustomerStage.ts)\<close>

text \<open>
  The hook reads the three store snapshots and computes from them; the model takes the
  snapshots as arguments.  Of each entity only the fields the hook reads are kept.  The
  status fields are compared with string literals in the source and stay strings.
\<close>

record estimate =
  e_customer_id :: string
  e_status :: string

record job =
  j_id :: string
  j_customer_id :: string
  j_description :: string
  j_status :: string

record invoice =
  i_customer_id :: string
  i_job_id :: "string option"
  i_status :: string

datatype icon = FileText | Calendar | Clock | CreditCard

datatype stage_category = Estimate | Job | Invoice

record CustomerStage =
  label :: string
  stage_icon :: icon
  bgColor :: string
  textColor :: string
  stage_category :: stage_category

text \<open>
  \<^verbatim>\<open>toLowerCase\<close> on the letters A to Z; the other characters stay as they are.  For
  the test the hook makes this is enough: outside ASCII the only character whose
  lower-case form holds a letter of \<^verbatim>\<open>estimate visit\<close> is the dotted capital I, which
  becomes an i followed by a combining dot, and in the phrase no i is followed by one.
\<close>

definition lowerChar :: "char \<Rightarrow> char" where
  "lowerChar c =
     (let n = (of_char c :: nat) in if 65 \<le> n \<and> n \<le> 90 then char_of (n + 32) else c)"

definition toLowerCase :: "string \<Rightarrow> string" where
  "toLowerCase s = map lowerChar s"

definition isEstimateVisit :: "job \<Rightarrow> bool" where
  "isEstimateVisit j = str_includes (toLowerCase (j_description j)) ''estimate visit''"

definition estimatesQueue :: CustomerStage where
  "estimatesQueue = \<lparr>label = ''Estimates Queue'', stage_icon = FileText, bgColor = [],
     textColor = ''text-[#008B37]'', stage_category = Estimate\<rparr>"

definition pendingPayment :: CustomerStage where
  "pendingPayment = \<lparr>label = ''Pending Payment'', stage_icon = CreditCard, bgColor = [],
     textColor = ''text-[#475569]'', stage_category = Invoice\<rparr>"

definition jobScheduled :: CustomerStage where
  "jobScheduled = \<lparr>label = ''Job Scheduled'', stage_icon = Calendar, bgColor = [],
     textColor = ''text-[#f57c00]'', stage_category = Job\<rparr>"

definition scheduledEstimate :: CustomerStage where
  "scheduledEstimate = \<lparr>label = ''Scheduled Estimate'', stage_icon = Calendar, bgColor = [],
     textColor = ''text-[#008B37]'', stage_category = Estimate\<rparr>"

definition pendingEstimate :: CustomerStage where
  "pendingEstimate = \<lparr>label = ''Pending Estimate'', stage_icon = Clock, bgColor = [],
     textColor = ''text-[#008B37]'', stage_category = Estimate\<rparr>"

definition jobsQueue :: CustomerStage where
  "jobsQueue = \<lparr>label = ''Jobs Queue'', stage_icon = Calendar, bgColor = [],
     textColor = ''text-[#f57c00]'', stage_category = Job\<rparr>"

definition needsInvoice :: CustomerStage where
  "needsInvoice = \<lparr>label = ''Needs Invoice'', stage_icon = FileText, bgColor = [],
     textColor = ''text-[#475569]'', stage_category = Invoice\<rparr>"

text \<open>The stages in the order in which the hook's rules push them.\<close>

definition ruleOrder :: "CustomerStage list" where
  "ruleOrder = [estimatesQueue, pendingPayment, jobScheduled, scheduledEstimate,
     pendingEstimate, jobsQueue, needsInvoice]"

definition customerJobs :: "string \<Rightarrow> job list \<Rightarrow> job list" where
  "customerJobs customerId jobs =
     filter (\<lambda>j. j_customer_id j = customerId \<and> \<not> isEstimateVisit j) jobs"

definition customerInvoices :: "string \<Rightarrow> invoice list \<Rightarrow> invoice list" where
  "customerInvoices customerId invoices = filter (\<lambda>i. i_customer_id i = customerId) invoices"

definition customerEstimates :: "string \<Rightarrow> estimate list \<Rightarrow> estimate list" where
  "customerEstimates customerId estimates = filter (\<lambda>e. e_customer_id e = customerId) estimates"

text \<open>The condition of the first early return: the customer has completed every stage.\<close>

definition completed :: "string \<Rightarrow> job list \<Rightarrow> invoice list \<Rightarrow> bool" where
  "completed customerId jobs invoices =
     (let cjs = customerJobs customerId jobs;
          cis = customerInvoices customerId invoices;
          allJobsHaveInvoices =
            (length cjs > 0 \<and>
             list_all (\<lambda>jb. list_ex (\<lambda>inv. i_job_id inv = Some (j_id jb)) cis) cjs);
          allInvoicesPaid =
            (length cis > 0 \<and>
             list_all (\<lambda>inv. i_status inv = ''paid'' \<or> i_status inv = ''void'') cis)
      in allJobsHaveInvoices \<and> allInvoicesPaid \<and> length cjs > 0)"

definition hasRejectedEstimateOnly :: "string \<Rightarrow> estimate list \<Rightarrow> bool" where
  "hasRejectedEstimateOnly customerId estimates =
     (let ces = customerEstimates customerId estimates
      in length ces > 0 \<and> list_all (\<lambda>est. e_status est = ''rejected'') ces)"

definition hasPendingPayment :: "string \<Rightarrow> invoice list \<Rightarrow> bool" where
  "hasPendingPayment customerId invoices =
     list_ex (\<lambda>i. i_customer_id i = customerId \<and>
                   (i_status i = ''draft'' \<or> i_status i = ''overdue'')) invoices"

definition hasScheduledJob :: "string \<Rightarrow> job list \<Rightarrow> bool" where
  "hasScheduledJob customerId jobs =
     list_ex (\<lambda>j. j_customer_id j = customerId \<and> \<not> isEstimateVisit j \<and>
                   (j_status j = ''scheduled'' \<or> j_status j = ''in_progress'')) jobs"

definition hasScheduledEstimateVisit :: "string \<Rightarrow> job list \<Rightarrow> bool" where
  "hasScheduledEstimateVisit customerId jobs =
     list_ex (\<lambda>j. j_customer_id j = customerId \<and> isEstimateVisit j \<and>
                   (j_status j = ''scheduled'' \<or> j_status j = ''in_progress'')) jobs"

definition hasPendingEstimate :: "string \<Rightarrow> estimate list \<Rightarrow> bool" where
  "hasPendingEstimate customerId estimates =
     list_ex (\<lambda>e. e_customer_id e = customerId \<and> e_status e = ''pending'') estimates"

definition hasApprovedEstimate :: "string \<Rightarrow> estimate list \<Rightarrow> bool" where
  "hasApprovedEstimate customerId estimates =
     list_ex (\<lambda>e. e_customer_id e = customerId \<and> e_status e = ''approved'') estimates"

definition hasCompletedJob :: "string \<Rightarrow> job list \<Rightarrow> invoice list \<Rightarrow> bool" where
  "hasCompletedJob customerId jobs invoices =
     list_ex (\<lambda>j. j_customer_id j = customerId \<and> j_status j = ''completed'' \<and>
                   \<not> isEstimateVisit j \<and>
                   \<not> list_ex (\<lambda>i. i_job_id i = Some (j_id j)) invoices) jobs"

text \<open>
  The array \<^verbatim>\<open>stages\<close> grows by \<^verbatim>\<open>push\<close> in the order of the rules; the second early
  return drops what the first rule pushed and returns a new empty array.
\<close>

definition useCustomerStage ::
  "string \<Rightarrow> bool \<Rightarrow> estimate list \<Rightarrow> job list \<Rightarrow> invoice list \<Rightarrow> CustomerStage list" where
  "useCustomerStage customerId needsEstimate estimates jobs invoices =
     (if completed customerId jobs invoices then []
      else
        let stages1 = (if needsEstimate then [estimatesQueue] else [])
        in if hasRejectedEstimateOnly customerId estimates then []
           else
             stages1
             @ (if hasPendingPayment customerId invoices then [pendingPayment] else [])
             @ (if hasScheduledJob customerId jobs then [jobScheduled] else [])
             @ (if hasScheduledEstimateVisit customerId jobs then [scheduledEstimate] else [])
             @ (if hasPendingEstimate customerId estimates then [pendingEstimate] else [])
             @ (if hasApprovedEstimate customerId estimates then [jobsQueue] else [])
             @ (if hasCompletedJob customerId jobs invoices then [needsInvoice] else []))"

section \<open>Jobs entity store (store/optimizedJobStore.ts)\<close>

text \<open>
  The store holds the collection, the loading flag and the error text; it shares the
  fetch ledger with the coordinator.  The remote collection, the local mirror
  (IndexedDB) and the sync queue are collaborators: what they answer is an input of the
  model, and every access to one of them is appended to a trace kept in the world, so
  that a run without external access is a run that leaves the trace as it was.
\<close>

record job_input =
  n_customer_id :: string
  n_description :: string
  n_status :: string

text \<open>\<^verbatim>\<open>Partial<Job>\<close>: each field present or absent.\<close>

record job_patch =
  p_id :: "string option"
  p_customer_id :: "string option"
  p_description :: "string option"
  p_status :: "string option"

datatype access =
    LocalRead
  | LocalWrite "job list"
  | RemoteSelect
  | RemoteInsert "job_input list"
  | RemoteUpdate string job_patch
  | RemoteDelete string
  | QueueCreate job
  | QueueUpdate string job_patch
  | QueueDelete string

record job_world =
  st_jobs :: "job list"
  st_loading :: bool
  st_error :: js_value
  ledger :: FetchCache
  trace :: "access list"

definition STORE_KEY :: string where
  "STORE_KEY = ''jobs''"

text \<open>
  A remote call either rejects with a raw error (\<open>Inl\<close>) or resolves to the pair
  \<^verbatim>\<open>{ data, error }\<close>; the store throws the \<^verbatim>\<open>error\<close> of the pair when there is one.
\<close>

type_synonym 'd response = "raw_error + ('d option \<times> raw_error option)"

definition settled :: "'d response \<Rightarrow> raw_error + 'd option" where
  "settled r =
     (case r of
        Inl err \<Rightarrow> Inl err
      | Inr (d, Some err) \<Rightarrow> Inl err
      | Inr (d, None) \<Rightarrow> Inr d)"

definition accessing :: "access \<Rightarrow> job_world \<Rightarrow> job_world" where
  "accessing a w = w\<lparr>trace := trace w @ [a]\<rparr>"

text \<open>
  The answers of the collaborators during one \<^verbatim>\<open>fetchJobs\<close>: the local mirror read at
  the start, the remote select, the local mirror read in the \<^verbatim>\<open>catch\<close> block, and the
  clock when \<^verbatim>\<open>markFetchComplete\<close> runs.  \<^verbatim>\<open>loadFromIndexedDB\<close> always resolves, to a
  success flag and the records.
\<close>

record fetch_env =
  local_first :: "bool \<times> job list"
  remote_select :: "(job list) response"
  local_fallback :: "bool \<times> job list"
  completed_at :: int

definition fetchJobs :: "bool \<Rightarrow> int \<Rightarrow> fetch_env \<Rightarrow> job_world \<Rightarrow> job_world" where
  "fetchJobs forceRefresh now env w =
     (case shouldFetchData (ledger w) STORE_KEY forceRefresh now of
        (False, c) \<Rightarrow> w\<lparr>ledger := c\<rparr>
      | (True, c) \<Rightarrow>
          let w1 = w\<lparr>ledger := c, st_loading := True, st_error := JNull\<rparr>;
              w2 = accessing LocalRead w1;
              w3 = (if fst (local_first env)
                    then w2\<lparr>st_jobs := snd (local_first env), st_loading := False\<rparr>
                    else w2);
              w4 = accessing RemoteSelect w3
          in (case settled (remote_select env) of
                Inr d \<Rightarrow>
                  let w5 = (case d of
                              None \<Rightarrow> w4
                            | Some js \<Rightarrow> if length js > 0 then accessing (LocalWrite js) w4 else w4);
                      w6 = w5\<lparr>st_jobs := (case d of None \<Rightarrow> [] | Some js \<Rightarrow> js),
                              st_loading := False, st_error := JNull\<rparr>
                  in w6\<lparr>ledger := markFetchComplete (ledger w6) STORE_KEY (completed_at env)\<rparr>
              | Inl err \<Rightarrow>
                  let w5 = accessing LocalRead w4;
                      w6 = (if fst (local_fallback env)
                            then w5\<lparr>st_jobs := snd (local_fallback env), st_loading := False,
                                    st_error := JStr ''Using cached job data. Some information may not be up to date.''\<rparr>
                            else w5\<lparr>st_jobs := [], st_loading := False,
                                    st_error := JStr ''Unable to load jobs. Please check your connection.''\<rparr>)
                  in w6\<lparr>ledger := markFetchFailed (ledger w6) STORE_KEY\<rparr>))"

text \<open>
  A mutation returns a promise: \<open>Inl\<close> is a rejection with the raw error, \<open>Inr\<close> the
  value it resolves to.  \<open>onLine\<close> is \<^verbatim>\<open>navigator.onLine\<close> as the operation reads it.
  \<^verbatim>\<open>addJob\<close> takes one record or an array; off line it completes each record with a
  fresh identifier (\<^verbatim>\<open>crypto.randomUUID()\<close>, here the function \<open>uuid\<close> of the position),
  the creation time being a field the model does not keep.
\<close>

datatype 'a one_or_many = One 'a | Many "'a list"

definition tempJob :: "string \<Rightarrow> job_input \<Rightarrow> job" where
  "tempJob i n = \<lparr>j_id = i, j_customer_id = n_customer_id n,
     j_description = n_description n, j_status = n_status n\<rparr>"

definition caught :: "raw_error \<Rightarrow> job_world \<Rightarrow> job_world" where
  "caught err w = w\<lparr>st_loading := False, st_error := message err\<rparr>"

definition invalidated :: "job_world \<Rightarrow> job_world" where
  "invalidated w = w\<lparr>ledger := invalidateCache (ledger w) STORE_KEY\<rparr>"

definition addJob ::
  "bool \<Rightarrow> (nat \<Rightarrow> string) \<Rightarrow> (job list) response \<Rightarrow> job response \<Rightarrow>
   job_input one_or_many \<Rightarrow> job_world \<Rightarrow> (raw_error + job list option) \<times> job_world" where
  "addJob onLine uuid insert_many insert_one jb w =
     (let w1 = w\<lparr>st_loading := True, st_error := JNull\<rparr>
      in if onLine = False then
           (let tempJobs =
                  (case jb of
                     Many ns \<Rightarrow> map (\<lambda>(k, n). tempJob (uuid k) n) (enumerate 0 ns)
                   | One n \<Rightarrow> [tempJob (uuid 0) n]);
                w2 = fold (\<lambda>j. accessing (QueueCreate j)) tempJobs w1;
                w3 = w2\<lparr>st_jobs := tempJobs @ st_jobs w2, st_loading := False, st_error := JNull\<rparr>
            in (Inr (Some tempJobs), invalidated w3))
         else
           (case jb of
              Many ns \<Rightarrow>
                (let w2 = accessing (RemoteInsert ns) w1
                 in case settled insert_many of
                      Inl err \<Rightarrow> (Inr None, caught err w2)
                    | Inr d \<Rightarrow>
                        (Inr d,
                         invalidated (w2\<lparr>st_jobs := (case d of None \<Rightarrow> [] | Some js \<Rightarrow> js) @ st_jobs w2,
                                          st_loading := False, st_error := JNull\<rparr>)))
            | One n \<Rightarrow>
                (let w2 = accessing (RemoteInsert [n]) w1
                 in case settled insert_one of
                      Inl err \<Rightarrow> (Inr None, caught err w2)
                    | Inr d \<Rightarrow>
                        (case d of None \<Rightarrow> Inr None | Some j \<Rightarrow> Inr (Some [j]),
                         invalidated (w2\<lparr>st_jobs := (case d of None \<Rightarrow> st_jobs w2 | Some j \<Rightarrow> j # st_jobs w2),
                                          st_loading := False, st_error := JNull\<rparr>)))))"

text \<open>\<^verbatim>\<open>{ ...job, ...updates }\<close>: the fields present in the patch replace the job's.\<close>

definition patched :: "job_patch \<Rightarrow> job \<Rightarrow> job" where
  "patched p j =
     \<lparr>j_id = (case p_id p of None \<Rightarrow> j_id j | Some v \<Rightarrow> v),
      j_customer_id = (case p_customer_id p of None \<Rightarrow> j_customer_id j | Some v \<Rightarrow> v),
      j_description = (case p_description p of None \<Rightarrow> j_description j | Some v \<Rightarrow> v),
      j_status = (case p_status p of None \<Rightarrow> j_status j | Some v \<Rightarrow> v)\<rparr>"

definition updateJob ::
  "bool \<Rightarrow> unit response \<Rightarrow> string \<Rightarrow> job_patch \<Rightarrow> job_world \<Rightarrow> (raw_error + unit) \<times> job_world" where
  "updateJob onLine update_answer i updates w =
     (let w1 = w\<lparr>st_loading := True, st_error := JNull\<rparr>
      in if onLine = False then
           (let w2 = accessing (QueueUpdate i updates) w1;
                w3 = w2\<lparr>st_jobs := map (\<lambda>j. if j_id j = i then patched updates j else j) (st_jobs w2),
                        st_loading := False, st_error := JNull\<rparr>
            in (Inr (), invalidated w3))
         else
           (let w2 = accessing (RemoteUpdate i updates) w1
            in case settled update_answer of
                 Inl err \<Rightarrow> (Inl err, caught err w2)
               | Inr d \<Rightarrow>
                   (Inr (),
                    invalidated (w2\<lparr>st_jobs := map (\<lambda>j. if j_id j = i then patched updates j else j) (st_jobs w2),
                                     st_loading := False, st_error := JNull\<rparr>))))"

definition deleteJob ::
  "bool \<Rightarrow> unit response \<Rightarrow> string \<Rightarrow> job_world \<Rightarrow> (raw_error + unit) \<times> job_world" where
  "deleteJob onLine delete_answer i w =
     (let w1 = w\<lparr>st_loading := True, st_error := JNull\<rparr>
      in if onLine = False then
           (let w2 = accessing (QueueDelete i) w1;
                w3 = w2\<lparr>st_jobs := filter (\<lambda>j. j_id j \<noteq> i) (st_jobs w2),
                        st_loading := False, st_error := JNull\<rparr>
            in (Inr (), invalidated w3))
         else
           (let w2 = accessing (RemoteDelete i) w1
            in case settled delete_answer of
                 Inl err \<Rightarrow> (Inl err, caught err w2)
               | Inr d \<Rightarrow>
                   (Inr (),
                    invalidated (w2\<lparr>st_jobs := filter (\<lambda>j. j_id j \<noteq> i) (st_jobs w2),
                                     st_loading := False, st_error := JNull\<rparr>))))"

section \<open>Sample runs\<close>

text \<open>
  An operation for exercising the executor.  Its world is the number of calls made so
  far: the first call fails with status 503, every later call with status 400.
\<close>

definition unavailable503 :: raw_error where
  "unavailable503 = \<lparr>code = None, status = Some 503, message = JUndefined, isTypeError = False\<rparr>"

definition badRequest400 :: raw_error where
  "badRequest400 =
     \<lparr>code = None, status = Some 400, message = JStr ''bad input'', isTypeError = False\<rparr>"

definition notImplemented501 :: raw_error where
  "notImplemented501 = \<lparr>code = None, status = Some 501, message = JUndefined, isTypeError = False\<rparr>"


definition constructorCode400 :: raw_error where
  "constructorCode400 =
     \<lparr>code = Some ''constructor'', status = Some 400, message = JUndefined, isTypeError = False\<rparr>"




text \<open>A store with one job, nothing loading, no error, an empty ledger and no access yet.\<close>

definition roofJob :: job where
  "roofJob = \<lparr>j_id = ''j1'', j_customer_id = ''c1'', j_description = ''Replace roof'',
     j_status = ''scheduled''\<rparr>"

definition visitJob :: job where
  "visitJob = \<lparr>j_id = ''j2'', j_customer_id = ''c1'', j_description = ''Estimate Visit - roof'',
     j_status = ''completed''\<rparr>"

definition idleStore :: job_world where
  "idleStore = \<lparr>st_jobs = [roofJob], st_loading = False, st_error = JNull,
     ledger = Map.empty, trace = []\<rparr>"

definition fetchingStore :: job_world where
  "fetchingStore = idleStore\<lparr>ledger := [''jobs'' \<mapsto> \<lparr>timestamp = 500, inProgress = True\<rparr>]\<rparr>"

definition someAnswers :: fetch_env where
  "someAnswers = \<lparr>local_first = (True, []), remote_select = Inr (Some [], None),
     local_fallback = (True, []), completed_at = 2000\<rparr>"

definition newJob :: job_input where
  "newJob = \<lparr>n_customer_id = ''c1'', n_description = ''Fix gutter'', n_status = ''scheduled''\<rparr>"

definition statusPatch :: job_patch where
  "statusPatch = \<lparr>p_id = None, p_customer_id = None, p_description = None,
     p_status = Some ''completed''\<rparr>"

section \<open>Properties of the request cache coordinator\<close>

lemma shouldFetchData_in_flight:
  "c k = Some e \<Longrightarrow> inProgress e \<Longrightarrow> shouldFetchData c k False now = (False, c)"
  by (simp add: shouldFetchData_def)

lemma shouldFetchData_other_key:
  "d \<noteq> k \<Longrightarrow> snd (shouldFetchData c d f now) k = c k"
  by (auto simp: shouldFetchData_def split: option.splits)

lemma shouldFetchData_permits:
  "fst (shouldFetchData c k f now) \<Longrightarrow>
   snd (shouldFetchData c k f now) k = Some \<lparr>timestamp = now, inProgress = True\<rparr>"
  by (auto simp: shouldFetchData_def split: option.splits if_splits)

lemma shouldFetchData_refuses:
  "\<not> fst (shouldFetchData c k f now) \<Longrightarrow> snd (shouldFetchData c k f now) = c"
  by (auto simp: shouldFetchData_def split: option.splits if_splits)

text \<open>
  Whatever the ledger held before, a fetch that was permitted at \<open>t0\<close> and then marked
  failed leaves an entry stamped \<open>t0\<close>; until the freshness window after \<open>t0\<close> has
  elapsed the next check refuses.
\<close>

lemma failed_fetch_counts_as_fresh:
  assumes "fst (shouldFetchData c k f t0)" and "t1 - t0 \<le> CACHE_EXPIRY"
  shows "fst (shouldFetchData (markFetchFailed (snd (shouldFetchData c k f t0)) k) k False t1) = False"
  using shouldFetchData_permits [OF assms(1)] assms(2)
  by (simp add: markFetchFailed_def shouldFetchData_def)

text \<open>
  C1.  The protocol of a fetch that fails: \<^verbatim>\<open>shouldFetchData(key)\<close> permits the fetch,
  the fetch fails and \<^verbatim>\<open>markFetchFailed(key)\<close> runs, and the next
  \<^verbatim>\<open>shouldFetchData(key)\<close> follows with no time elapsed.  On the empty ledger, for the
  key \<^verbatim>\<open>jobs\<close> at clock value 1000, the first call returns true and stamps the entry
  with the clock; \<^verbatim>\<open>markFetchFailed\<close> keeps that stamp; the next call therefore finds a
  fresh entry and returns false, so the retry is suppressed.
\<close>

theorem failed_fetch_suppresses_retry:
  "answers ''jobs'' Map.empty
     [ShouldFetch ''jobs'' False 1000, MarkFailed ''jobs'', ShouldFetch ''jobs'' False 1000]
   = [True, False]"
  by (simp add: shouldFetchData_def markFetchFailed_def CACHE_EXPIRY_def)

lemma step_quiet_in_flight:
  assumes "quiet k op" and "c k = Some e" and "inProgress e"
  shows "step c op k = c k"
proof (cases op)
  case (ShouldFetch d f now)
  show ?thesis
  proof (cases "d = k")
    case True
    with assms ShouldFetch have "f = False" by simp
    with True ShouldFetch assms show ?thesis
      by (simp add: shouldFetchData_in_flight)
  next
    case False
    with ShouldFetch show ?thesis by (simp add: shouldFetchData_other_key)
  qed
next
  case (MarkComplete d now)
  with assms show ?thesis by (auto simp: markFetchComplete_def)
next
  case (MarkFailed d)
  with assms show ?thesis by (auto simp: markFetchFailed_def)
next
  case (Invalidate d)
  with assms show ?thesis by (auto simp: invalidateCache_def split: option.splits)
next
  case InvalidateAll
  with assms show ?thesis by simp
qed

lemma answers_in_flight:
  "undisturbed k ops \<Longrightarrow> c k = Some e \<Longrightarrow> inProgress e \<Longrightarrow>
   list_all (\<lambda>r. r = False) (answers k c ops) \<and> run c ops k = c k"
proof (induction ops arbitrary: c)
  case Nil
  then show ?case by simp
next
  case (Cons op ops)
  from Cons.prems have q: "quiet k op" and u: "undisturbed k ops"
    by (simp_all add: undisturbed_def)
  have same: "step c op k = Some e"
    using step_quiet_in_flight [of k op c e] q Cons.prems(2,3) by simp
  have ih: "list_all (\<lambda>r. r = False) (answers k (step c op) ops) \<and>
            run (step c op) ops k = step c op k"
    using Cons.IH [of "step c op"] u same Cons.prems(3) by simp
  show ?case
  proof (cases op)
    case (ShouldFetch d f now)
    show ?thesis
    proof (cases "d = k")
      case True
      with q ShouldFetch have "f = False" by simp
      with True ShouldFetch ih same Cons.prems show ?thesis
        by (simp add: shouldFetchData_in_flight)
    next
      case False
      with ShouldFetch ih same Cons.prems show ?thesis by simp
    qed
  qed (use ih same Cons.prems in simp_all)
qed

lemma answers_after_permit:
  "undisturbed k ops \<Longrightarrow> answers k c ops = rs1 @ True # rs2 \<Longrightarrow> list_all (\<lambda>r. r = False) rs2"
proof (induction ops arbitrary: c rs1)
  case Nil
  then show ?case by simp
next
  case (Cons op ops)
  from Cons.prems have q: "quiet k op" and u: "undisturbed k ops"
    by (simp_all add: undisturbed_def)
  have skip: "list_all (\<lambda>r. r = False) rs2" if "answers k (step c op) ops = rs1 @ True # rs2"
    using Cons.IH [OF u that] .
  show ?case
  proof (cases op)
    case (ShouldFetch d f now)
    show ?thesis
    proof (cases "d = k")
      case True
      let ?r = "fst (shouldFetchData c k f now)"
      let ?c' = "snd (shouldFetchData c k f now)"
      from True ShouldFetch Cons.prems(2)
      have eq: "?r # answers k ?c' ops = rs1 @ True # rs2" by simp
      show ?thesis
      proof (cases rs1)
        case Nil
        with eq have r: "?r" and rest: "answers k ?c' ops = rs2" by simp_all
        have "?c' k = Some \<lparr>timestamp = now, inProgress = True\<rparr>"
          using shouldFetchData_permits [of c k f now] r by simp
        with answers_in_flight [of k ops ?c' "\<lparr>timestamp = now, inProgress = True\<rparr>"] u rest
        show ?thesis by simp
      next
        case (Cons r rs1')
        with eq have "answers k ?c' ops = rs1' @ True # rs2" by simp
        from Cons.IH [OF u this] show ?thesis .
      qed
    next
      case False
      with ShouldFetch Cons.prems(2) show ?thesis by (intro skip) simp
    qed
  next
    case (MarkComplete d now)
    with Cons.prems(2) show ?thesis by (intro skip) simp
  next
    case (MarkFailed d)
    with Cons.prems(2) show ?thesis by (intro skip) simp
  next
    case (Invalidate d)
    with Cons.prems(2) show ?thesis by (intro skip) simp
  next
    case InvalidateAll
    with Cons.prems(2) show ?thesis by (intro skip) simp
  qed
qed

text \<open>
  C3, as the code has it.  Take any ledger and any trace whose only calls on the key are
  \<^verbatim>\<open>shouldFetchData\<close> without forced refresh (calls on other keys are free; the key is
  neither completed, failed nor invalidated, and the ledger is not cleared).  Then every
  call on the key that comes after one that returned true returns false, so at most one
  call of the trace permits a fetch; and when the entry of the key has
  \<^verbatim>\<open>inProgress = true\<close> at the start, every call returns false and the entry is the same
  at the end.  The ledger is a map, with at most one entry for a key.
\<close>

theorem dedup_after_permit:
  "undisturbed k ops \<Longrightarrow>
     (\<forall>rs1 rs2. answers k c ops = rs1 @ True # rs2 \<longrightarrow> list_all (\<lambda>r. r = False) rs2) \<and>
     ((\<exists>e. c k = Some e \<and> inProgress e) \<longrightarrow>
        list_all (\<lambda>r. r = False) (answers k c ops) \<and> run c ops k = c k)"
  using answers_after_permit answers_in_flight by blast

text \<open>
  Two runs of one trace, in which calls on \<^verbatim>\<open>customers\<close> interleave with three calls on
  \<^verbatim>\<open>jobs\<close>: from the empty ledger the answers for \<^verbatim>\<open>jobs\<close> are true, false, false;
  from a ledger where \<^verbatim>\<open>jobs\<close> is in flight they are all false and the entry stays.
\<close>

theorem dedup_after_permit_witness:
  "undisturbed ''jobs''
     [ShouldFetch ''jobs'' False 1000, ShouldFetch ''customers'' False 1000,
      ShouldFetch ''jobs'' False 2000, MarkComplete ''customers'' 3000,
      ShouldFetch ''jobs'' False 999999] \<and>
   answers ''jobs'' Map.empty
     [ShouldFetch ''jobs'' False 1000, ShouldFetch ''customers'' False 1000,
      ShouldFetch ''jobs'' False 2000, MarkComplete ''customers'' 3000,
      ShouldFetch ''jobs'' False 999999] = [] @ True # [False, False] \<and>
   list_all (\<lambda>r. r = False) [False, False] \<and>
   [''jobs'' \<mapsto> \<lparr>timestamp = 500, inProgress = True\<rparr>] ''jobs''
     = Some \<lparr>timestamp = 500, inProgress = True\<rparr> \<and>
   inProgress \<lparr>timestamp = 500, inProgress = True\<rparr> \<and>
   list_all (\<lambda>r. r = False)
     (answers ''jobs'' [''jobs'' \<mapsto> \<lparr>timestamp = 500, inProgress = True\<rparr>]
        [ShouldFetch ''jobs'' False 1000, ShouldFetch ''customers'' False 1000,
         ShouldFetch ''jobs'' False 2000, MarkComplete ''customers'' 3000,
         ShouldFetch ''jobs'' False 999999]) \<and>
   run [''jobs'' \<mapsto> \<lparr>timestamp = 500, inProgress = True\<rparr>]
     [ShouldFetch ''jobs'' False 1000, ShouldFetch ''customers'' False 1000,
      ShouldFetch ''jobs'' False 2000, MarkComplete ''customers'' 3000,
      ShouldFetch ''jobs'' False 999999] ''jobs''
     = Some \<lparr>timestamp = 500, inProgress = True\<rparr>"
  (is "?u \<and> ?a \<and> ?f \<and> ?c \<and> ?p \<and> ?all \<and> ?same")
proof -
  let ?ops = "[ShouldFetch ''jobs'' False 1000, ShouldFetch ''customers'' False 1000,
      ShouldFetch ''jobs'' False 2000, MarkComplete ''customers'' 3000,
      ShouldFetch ''jobs'' False 999999]"
  let ?busy = "[''jobs'' \<mapsto> \<lparr>timestamp = 500, inProgress = True\<rparr>]"
  have u: ?u by (simp add: undisturbed_def)
  have a: ?a
    by (simp add: shouldFetchData_def markFetchComplete_def CACHE_EXPIRY_def)
  have c: "\<exists>e. ?busy ''jobs'' = Some e \<and> inProgress e" by simp
  from dedup_after_permit [OF u, of Map.empty] a have f: ?f by blast
  from dedup_after_permit [OF u, of ?busy] c have "?all \<and> ?same" by simp
  with u a f show ?thesis by simp
qed

text \<open>
  Without the restriction to what follows a permitted fetch the statement fails: when
  the first call finds a fresh entry and the window ends before a later call, the later
  call returns true (after a completion at 0, a call at 1000 returns false and a call at
  400000 returns true, with nothing in between).  It also fails when the whole ledger
  is cleared between two calls, which is no \<^verbatim>\<open>invalidateCache\<close> of the key: both calls
  return true.
\<close>

theorem later_call_permitted:
  "undisturbed ''jobs'' [ShouldFetch ''jobs'' False 1000, ShouldFetch ''jobs'' False 400000] \<and>
   answers ''jobs'' (markFetchComplete Map.empty ''jobs'' 0)
     [ShouldFetch ''jobs'' False 1000, ShouldFetch ''jobs'' False 400000] = [False, True] \<and>
   answers ''jobs'' Map.empty
     [ShouldFetch ''jobs'' False 1000, InvalidateAll, ShouldFetch ''jobs'' False 1000]
     = [True, True]"
  by (simp add: undisturbed_def shouldFetchData_def markFetchComplete_def
       invalidateAllCaches_def CACHE_EXPIRY_def)

text \<open>
  C10.  When \<^verbatim>\<open>shouldFetchData('jobs', false)\<close> returns false, \<^verbatim>\<open>fetchJobs\<close> returns the
  world it was given: the collection, the loading flag, the error text and the whole
  ledger are unchanged, and so is the trace, that is, no access to the remote
  collection or the local mirror was made.
\<close>

theorem fetchJobs_gated:
  "fst (shouldFetchData (ledger w) ''jobs'' False now) = False \<Longrightarrow> fetchJobs False now env w = w"
  using shouldFetchData_refuses [of "ledger w" STORE_KEY False now]
  by (cases "shouldFetchData (ledger w) STORE_KEY False now") (simp add: fetchJobs_def STORE_KEY_def)

theorem fetchJobs_gated_witness:
  "fst (shouldFetchData (ledger fetchingStore) ''jobs'' False 1000) = False \<and>
   fetchJobs False 1000 someAnswers fetchingStore = fetchingStore"
proof -
  have h: "fst (shouldFetchData (ledger fetchingStore) ''jobs'' False 1000) = False"
    by (simp add: fetchingStore_def idleStore_def shouldFetchData_def)
  from fetchJobs_gated [OF h] h show ?thesis by simp
qed

section \<open>Properties of the classifier and the executor\<close>


lemma js_or_returns:
  "a = Inr x \<Longrightarrow> b = Inr y \<Longrightarrow> js_or a b = Inr (x \<or> y)"
  by (simp add: js_or_def)




lemma createAppError_throws:
  "categorizeError onLine err = Inl t \<Longrightarrow> createAppError onLine err rt = Inl t"
  by (simp add: createAppError_def)











lemma categorize_badRequest400: "categorizeError True badRequest400 = Inr (Category VALIDATION)"
  by (simp add: categorizeError_def httpLookup_def httpErrorMap_def badRequest400_def)






text \<open>
  C6, as the code has it.  When the runtime is on line and the error's code is absent,
  or is neither a key of the backend table nor a name the table object inherits, a
  status that is a key of \<^verbatim>\<open>httpErrorMap\<close> gives the category the table holds: 400, 409
  and 422 validation, 401 authentication, 403 authorization, 404 not_found, and 429,
  500, 502, 503 and 504 server.
\<close>

theorem http_status_mapping:
  assumes "case code err of
             None \<Rightarrow> True
           | Some c \<Rightarrow> supabaseErrorMap c = None \<and> c \<notin> set inheritedNames"
    and "status err = Some n"
  shows "(n \<in> {400, 409, 422} \<longrightarrow> categorizeError True err = Inr (Category VALIDATION)) \<and>
         (n = 401 \<longrightarrow> categorizeError True err = Inr (Category AUTHENTICATION)) \<and>
         (n = 403 \<longrightarrow> categorizeError True err = Inr (Category AUTHORIZATION)) \<and>
         (n = 404 \<longrightarrow> categorizeError True err = Inr (Category NOT_FOUND)) \<and>
         (n \<in> {429, 500, 502, 503, 504} \<longrightarrow> categorizeError True err = Inr (Category SERVER))"
proof -
  have "(case code err of
                 None \<Rightarrow> None
               | Some c \<Rightarrow> if c = [] then None else supabaseLookup c) = None"
  proof (cases "code err")
    case None
    then show ?thesis by simp
  next
    case (Some c)
    with assms(1) have "supabaseLookup c = None" by (simp add: supabaseLookup_def)
    with Some show ?thesis by simp
  qed
  then show ?thesis
    using assms(2)
    by (auto simp: categorizeError_def httpLookup_def httpErrorMap_def)
qed

theorem http_status_mapping_witness:
  "(case code unavailable503 of
      None \<Rightarrow> True
    | Some c \<Rightarrow> supabaseErrorMap c = None \<and> c \<notin> set inheritedNames) \<and>
   status unavailable503 = Some 503 \<and>
   (503::int) \<in> {429, 500, 502, 503, 504} \<and>
   categorizeError True unavailable503 = Inr (Category SERVER)"
proof -
  have h1: "case code unavailable503 of
              None \<Rightarrow> True
            | Some c \<Rightarrow> supabaseErrorMap c = None \<and> c \<notin> set inheritedNames"
    by (simp add: unavailable503_def)
  have h2: "status unavailable503 = Some 503"
    by (simp add: unavailable503_def)
  from http_status_mapping [OF h1 h2] h1 h2 show ?thesis by simp
qed

text \<open>
  The statuses 501 and 505 to 599 are not keys of the table: on line, an error that
  carries only the status 501 falls through to the message rules and is classified
  unknown, not server.  And a code that is no key of the backend table can still be
  found there: for the code \<^verbatim>\<open>constructor\<close> with status 400 the classifier returns the
  inherited member of that name, not validation.
\<close>

theorem status_501_not_server:
  "code notImplemented501 = None \<and> status notImplemented501 = Some 501 \<and>
   categorizeError True notImplemented501 = Inr (Category UNKNOWN) \<and>
   code constructorCode400 = Some ''constructor'' \<and> supabaseErrorMap ''constructor'' = None \<and>
   status constructorCode400 = Some 400 \<and>
   categorizeError True constructorCode400 = Inr (Inherited ''constructor'')"
  by (simp add: notImplemented501_def constructorCode400_def categorizeError_def
       httpLookup_def httpErrorMap_def supabaseLookup_def supabaseErrorMap_def
       inheritedNames_def messageIncludes_def js_or_def)

lemma supabaseLookup_not_offline: "supabaseLookup c \<noteq> Some (Category OFFLINE)"
  by (simp add: supabaseLookup_def supabaseErrorMap_def)

lemma httpLookup_not_offline: "httpLookup n \<noteq> Some (Category OFFLINE)"
  by (simp add: httpLookup_def httpErrorMap_def)

text \<open>
  C7, as the code has it.  The category is a function of the error and of the reading
  of \<^verbatim>\<open>navigator.onLine\<close>: with no connectivity every error is classified offline, and
  with connectivity no error is.
\<close>

theorem category_offline_iff_not_onLine:
  "categorizeError False err = Inr (Category OFFLINE) \<and>
   categorizeError True err \<noteq> Inr (Category OFFLINE)"
proof
  show "categorizeError False err = Inr (Category OFFLINE)" by (simp add: categorizeError_def)
next
  have a: "found \<noteq> Category OFFLINE" if "supabaseLookup c = Some found" for c found
    using that supabaseLookup_not_offline [of c] by auto
  have b: "found \<noteq> Category OFFLINE" if "httpLookup n = Some found" for n found
    using that httpLookup_not_offline [of n] by auto
  show "categorizeError True err \<noteq> Inr (Category OFFLINE)"
    unfolding categorizeError_def
    by (auto split: option.splits if_splits sum.splits dest: a b)
qed

text \<open>
  The same error, two readings of the connectivity, two categories: the category
  depends on state outside the argument.
\<close>

theorem category_depends_on_connectivity:
  "categorizeError False badRequest400 = Inr (Category OFFLINE) \<and>
   categorizeError True badRequest400 = Inr (Category VALIDATION)"
  by (simp add: categorize_badRequest400) (simp add: categorizeError_def)

section \<open>Properties of the stage deriver\<close>

lemma list_ex_filter_conj: "list_ex (\<lambda>x. P x \<and> Q x) xs = list_ex Q (filter P xs)"
  by (induction xs) auto

text \<open>
  C4.  A customer with at least one estimate, all of them rejected, has no stage,
  whatever \<^verbatim>\<open>needsEstimate\<close> and the jobs and invoices are (and whether or not the
  completion test applies, which also returns the empty sequence).
\<close>

theorem rejected_only_is_inactive:
  assumes "customerEstimates customerId estimates \<noteq> []"
    and "\<forall>est \<in> set (customerEstimates customerId estimates). e_status est = ''rejected''"
  shows "useCustomerStage customerId needsEstimate estimates jobs invoices = []"
proof -
  from assms have "hasRejectedEstimateOnly customerId estimates"
    by (simp add: hasRejectedEstimateOnly_def list_all_iff)
  then show ?thesis by (simp add: useCustomerStage_def)
qed

text \<open>
  The instance of the specification: \<^verbatim>\<open>needsEstimate = true\<close>, one rejected estimate,
  nothing else.  The completion test does not apply, the first rule pushes Estimates
  Queue, and the result is empty.
\<close>

theorem rejected_only_is_inactive_witness:
  "customerEstimates ''c1'' [\<lparr>e_customer_id = ''c1'', e_status = ''rejected''\<rparr>] \<noteq> [] \<and>
   map e_status (customerEstimates ''c1'' [\<lparr>e_customer_id = ''c1'', e_status = ''rejected''\<rparr>])
     = [''rejected''] \<and>
   \<not> completed ''c1'' [] [] \<and>
   useCustomerStage ''c1'' True [\<lparr>e_customer_id = ''c1'', e_status = ''rejected''\<rparr>] [] [] = []"
proof -
  have h1: "customerEstimates ''c1'' [\<lparr>e_customer_id = ''c1'', e_status = ''rejected''\<rparr>] \<noteq> []"
    by (simp add: customerEstimates_def)
  have h2: "\<forall>est \<in> set (customerEstimates ''c1'' [\<lparr>e_customer_id = ''c1'', e_status = ''rejected''\<rparr>]).
       e_status est = ''rejected''"
    by (simp add: customerEstimates_def)
  have h3: "\<not> completed ''c1'' [] []"
    by (simp add: completed_def customerJobs_def customerInvoices_def)
  have h4: "map e_status (customerEstimates ''c1'' [\<lparr>e_customer_id = ''c1'', e_status = ''rejected''\<rparr>])
     = [''rejected'']"
    by (simp add: customerEstimates_def)
  from rejected_only_is_inactive [OF h1 h2, of True "[]" "[]"] h1 h3 h4 show ?thesis by simp
qed

lemma subseq_opt: "subseq xs ys \<Longrightarrow> subseq ((if b then [x] else []) @ xs) (x # ys)"
  by (cases b) (auto intro: list_emb_Cons)

lemma subseq_opt_last: "subseq (if b then [x] else []) [x]"
  by (cases b) simp_all

lemma stages_follow_rule_order:
  "subseq (useCustomerStage c n es js is) ruleOrder"
proof -
  have "subseq
     ((if n then [estimatesQueue] else [])
      @ (if hasPendingPayment c is then [pendingPayment] else [])
      @ (if hasScheduledJob c js then [jobScheduled] else [])
      @ (if hasScheduledEstimateVisit c js then [scheduledEstimate] else [])
      @ (if hasPendingEstimate c es then [pendingEstimate] else [])
      @ (if hasApprovedEstimate c es then [jobsQueue] else [])
      @ (if hasCompletedJob c js is then [needsInvoice] else []))
     [estimatesQueue, pendingPayment, jobScheduled, scheduledEstimate,
      pendingEstimate, jobsQueue, needsInvoice]"
    (is "subseq ?pushed _")
    by (intro subseq_opt subseq_opt_last)
  then have pushed: "subseq ?pushed ruleOrder"
    by (simp only: ruleOrder_def)
  show ?thesis
  proof (cases "completed c js is \<or> hasRejectedEstimateOnly c es")
    case True
    then have "useCustomerStage c n es js is = []"
      by (auto simp: useCustomerStage_def)
    then show ?thesis by simp
  next
    case False
    then have "useCustomerStage c n es js is = ?pushed"
      by (simp add: useCustomerStage_def)
    with pushed show ?thesis by (simp only:)
  qed
qed

lemma one_pending_one_scheduled:
  assumes es: "customerEstimates c es = [e]" and pending: "e_status e = ''pending''"
    and js: "filter (\<lambda>j. j_customer_id j = c) js = [j]"
    and real: "\<not> isEstimateVisit j" and scheduled: "j_status j = ''scheduled''"
    and inv: "customerInvoices c is = []"
  shows "useCustomerStage c False es js is = [jobScheduled, pendingEstimate]"
proof -
  from es inv have es': "filter (\<lambda>e. e_customer_id e = c) es = [e]"
    and inv': "filter (\<lambda>i. i_customer_id i = c) is = []"
    by (simp_all add: customerEstimates_def customerInvoices_def)
  have 1: "\<not> completed c js is"
    by (simp add: completed_def customerInvoices_def inv')
  have 2: "\<not> hasRejectedEstimateOnly c es"
    using pending by (simp add: hasRejectedEstimateOnly_def es)
  have 3: "\<not> hasPendingPayment c is"
    by (simp add: hasPendingPayment_def list_ex_filter_conj inv')
  have 4: "hasScheduledJob c js"
    using real scheduled by (simp add: hasScheduledJob_def list_ex_filter_conj js)
  have 5: "\<not> hasScheduledEstimateVisit c js"
    using real by (simp add: hasScheduledEstimateVisit_def list_ex_filter_conj js)
  have 6: "hasPendingEstimate c es"
    using pending by (simp add: hasPendingEstimate_def list_ex_filter_conj es')
  have 7: "\<not> hasApprovedEstimate c es"
    using pending by (simp add: hasApprovedEstimate_def list_ex_filter_conj es')
  have 8: "\<not> hasCompletedJob c js is"
    using scheduled by (simp add: hasCompletedJob_def list_ex_filter_conj js)
  from 1 2 3 4 5 6 7 8 show ?thesis
    by (simp add: useCustomerStage_def)
qed

text \<open>
  C5.  The stage sequence is a function of the customer id, the flag and the three
  snapshots, and it is always a subsequence of the rule order Estimates Queue, Pending
  Payment, Job Scheduled, Scheduled Estimate, Pending Estimate, Jobs Queue, Needs
  Invoice.  When the customer has exactly one estimate, pending, exactly one job, not an
  estimate visit and scheduled, and no invoice, and \<^verbatim>\<open>needsEstimate\<close> is false, the
  sequence is Job Scheduled followed by Pending Estimate (records of other customers may
  be present in the snapshots).
\<close>

theorem pending_estimate_and_scheduled_job:
  "subseq (useCustomerStage c n es js is) ruleOrder \<and>
   (customerEstimates c es = [e] \<and> e_status e = ''pending'' \<and>
    filter (\<lambda>j. j_customer_id j = c) js = [j] \<and> \<not> isEstimateVisit j \<and>
    j_status j = ''scheduled'' \<and> customerInvoices c is = []
    \<longrightarrow> useCustomerStage c False es js is = [jobScheduled, pendingEstimate])"
  using stages_follow_rule_order one_pending_one_scheduled by blast

lemma roofJob_is_real: "\<not> isEstimateVisit roofJob"
  by code_simp

lemma visitJob_is_visit: "isEstimateVisit visitJob"
  by code_simp

theorem pending_estimate_and_scheduled_job_witness:
  "customerEstimates ''c1'' [\<lparr>e_customer_id = ''c1'', e_status = ''pending''\<rparr>]
     = [\<lparr>e_customer_id = ''c1'', e_status = ''pending''\<rparr>] \<and>
   e_status \<lparr>e_customer_id = ''c1'', e_status = ''pending''\<rparr> = ''pending'' \<and>
   filter (\<lambda>j. j_customer_id j = ''c1'') [roofJob] = [roofJob] \<and>
   \<not> isEstimateVisit roofJob \<and> j_status roofJob = ''scheduled'' \<and>
   customerInvoices ''c1'' [] = [] \<and>
   useCustomerStage ''c1'' False [\<lparr>e_customer_id = ''c1'', e_status = ''pending''\<rparr>] [roofJob] []
     = [jobScheduled, pendingEstimate]"
proof -
  have h: "customerEstimates ''c1'' [\<lparr>e_customer_id = ''c1'', e_status = ''pending''\<rparr>]
       = [\<lparr>e_customer_id = ''c1'', e_status = ''pending''\<rparr>] \<and>
     e_status \<lparr>e_customer_id = ''c1'', e_status = ''pending''\<rparr> = ''pending'' \<and>
     filter (\<lambda>j. j_customer_id j = ''c1'') [roofJob] = [roofJob] \<and>
     \<not> isEstimateVisit roofJob \<and> j_status roofJob = ''scheduled'' \<and>
     customerInvoices ''c1'' [] = []"
    using roofJob_is_real by (simp add: customerEstimates_def customerInvoices_def roofJob_def)
  from pending_estimate_and_scheduled_job
         [of "''c1''" False "[\<lparr>e_customer_id = ''c1'', e_status = ''pending''\<rparr>]" "[roofJob]" "[]"
             "\<lparr>e_customer_id = ''c1'', e_status = ''pending''\<rparr>" roofJob] h
  show ?thesis by blast
qed

text \<open>
  C9.  When every job of the customer is an estimate visit (or the customer has no job),
  the completion test fails, whatever the invoices are; and with \<^verbatim>\<open>needsEstimate\<close> true
  and no estimate, the stages contain Estimates Queue, so they are not empty.
\<close>

theorem estimate_only_customer_never_complete:
  assumes "\<forall>j \<in> set jobs. j_customer_id j = customerId \<longrightarrow> isEstimateVisit j"
  shows "\<not> completed customerId jobs invoices \<and>
         (needsEstimate \<and> customerEstimates customerId estimates = [] \<longrightarrow>
            estimatesQueue \<in> set (useCustomerStage customerId needsEstimate estimates jobs invoices))"
proof -
  from assms have "customerJobs customerId jobs = []"
    by (auto simp: customerJobs_def filter_empty_conv)
  then have nc: "\<not> completed customerId jobs invoices"
    by (simp add: completed_def)
  have "customerEstimates customerId estimates = [] \<Longrightarrow> \<not> hasRejectedEstimateOnly customerId estimates"
    by (simp add: hasRejectedEstimateOnly_def)
  with nc show ?thesis by (simp add: useCustomerStage_def)
qed

text \<open>
  A customer whose only job is a completed estimate visit with a paid invoice, flagged
  as needing an estimate and without estimates: the stages hold Estimates Queue.
\<close>

theorem estimate_only_customer_never_complete_witness:
  "j_customer_id visitJob = ''c1'' \<and> isEstimateVisit visitJob \<and>
   customerEstimates ''c1'' [] = [] \<and>
   \<not> completed ''c1'' [visitJob]
       [\<lparr>i_customer_id = ''c1'', i_job_id = Some ''j2'', i_status = ''paid''\<rparr>] \<and>
   estimatesQueue \<in> set (useCustomerStage ''c1'' True [] [visitJob]
       [\<lparr>i_customer_id = ''c1'', i_job_id = Some ''j2'', i_status = ''paid''\<rparr>])"
proof -
  have h1: "\<forall>j \<in> set [visitJob]. j_customer_id j = ''c1'' \<longrightarrow> isEstimateVisit j"
    using visitJob_is_visit by simp
  have h2: "customerEstimates ''c1'' [] = []"
    by (simp add: customerEstimates_def)
  have h3: "j_customer_id visitJob = ''c1''"
    by (simp add: visitJob_def)
  from estimate_only_customer_never_complete [OF h1, of
         "[\<lparr>i_customer_id = ''c1'', i_job_id = Some ''j2'', i_status = ''paid''\<rparr>]" True "[]"]
       h2 h3 visitJob_is_visit
  show ?thesis by simp
qed

section \<open>Properties of the jobs store\<close>

text \<open>
  C8, as the code has it.  On line, when the remote call fails (it rejects, or it
  answers with an error), \<^verbatim>\<open>updateJob\<close> and \<^verbatim>\<open>deleteJob\<close> reject with that error, after
  clearing the loading flag and storing the error's message; the collection and the
  ledger are as before.  \<^verbatim>\<open>addJob\<close> stores the message in the same way and resolves to
  \<^verbatim>\<open>null\<close>: it does not reject.
\<close>

theorem online_mutation_failure:
  "(settled update_answer = Inl err \<longrightarrow>
      updateJob True update_answer i updates w =
        (Inl err, w\<lparr>st_loading := False, st_error := message err,
                      trace := trace w @ [RemoteUpdate i updates]\<rparr>)) \<and>
   (settled delete_answer = Inl err \<longrightarrow>
      deleteJob True delete_answer i w =
        (Inl err, w\<lparr>st_loading := False, st_error := message err,
                      trace := trace w @ [RemoteDelete i]\<rparr>)) \<and>
   (settled insert_many = Inl err \<longrightarrow>
      addJob True uuid insert_many insert_one (Many ns) w =
        (Inr None, w\<lparr>st_loading := False, st_error := message err,
                       trace := trace w @ [RemoteInsert ns]\<rparr>)) \<and>
   (settled insert_one = Inl err \<longrightarrow>
      addJob True uuid insert_many insert_one (One n) w =
        (Inr None, w\<lparr>st_loading := False, st_error := message err,
                       trace := trace w @ [RemoteInsert [n]]\<rparr>))"
  by (simp add: updateJob_def deleteJob_def addJob_def caught_def accessing_def)

theorem online_mutation_failure_witness:
  "settled (Inl unavailable503 :: unit response) = Inl unavailable503 \<and>
   settled (Inr (None, Some unavailable503) :: (job list) response) = Inl unavailable503 \<and>
   settled (Inl unavailable503 :: job response) = Inl unavailable503 \<and>
   fst (updateJob True (Inl unavailable503) ''j1'' statusPatch idleStore) = Inl unavailable503 \<and>
   fst (deleteJob True (Inl unavailable503) ''j1'' idleStore) = Inl unavailable503 \<and>
   fst (addJob True (\<lambda>k. ''tmp'') (Inr (None, Some unavailable503)) (Inl unavailable503)
          (Many [newJob]) idleStore) = Inr None \<and>
   fst (addJob True (\<lambda>k. ''tmp'') (Inr (None, Some unavailable503)) (Inl unavailable503)
          (One newJob) idleStore) = Inr None"
proof -
  have h1: "settled (Inl unavailable503 :: unit response) = Inl unavailable503"
    and h2: "settled (Inr (None, Some unavailable503) :: (job list) response) = Inl unavailable503"
    and h3: "settled (Inl unavailable503 :: job response) = Inl unavailable503"
    by (simp_all add: settled_def)
  from online_mutation_failure
         [of "Inl unavailable503" unavailable503 "''j1''" statusPatch idleStore
             "Inl unavailable503" "Inr (None, Some unavailable503)" "\<lambda>k. ''tmp''"
             "Inl unavailable503" "[newJob]" newJob]
       h1 h2 h3
  show ?thesis by simp
qed

text \<open>
  On line, a single insert that the remote collection rejects: the promise of
  \<^verbatim>\<open>addJob\<close> resolves to \<^verbatim>\<open>null\<close>.
\<close>

theorem addJob_failure_resolves_null:
  "fst (addJob True (\<lambda>k. ''tmp'') (Inl unavailable503) (Inl unavailable503) (One newJob) idleStore)
   = Inr None"
  by (simp add: addJob_def settled_def)

end
